theory Spec2Isabelle
  imports Complex_Main
begin

section \<open>Text stimuli of featurex: a shallow embedding of \<^verbatim>\<open>featurex/stimuli/text.py\<close>\<close>

text \<open>
  The module defines three classes: \<^verbatim>\<open>TextStim\<close> (a text), \<^verbatim>\<open>DynamicTextStim\<close>
  (a text with order, onset and duration) and \<^verbatim>\<open>ComplexTextStim\<close> (a list of
  them, read from a tab-separated file or cut out of a string). Everything outside the
  module that it calls is an argument of the model: the file system (\<^verbatim>\<open>open\<close>),
  the pandas parser (\<^verbatim>\<open>pd.read_csv\<close>), \<^verbatim>\<open>re.findall\<close> on a pattern of the caller,
  the module \<^verbatim>\<open>nltk\<close>, and the extractors.
\<close>

subsection \<open>Python values and exceptions\<close>

text \<open>
  A Python string is the list of its code points, and the module runs under Python 3:
  white space and word characters are what Python 3 takes them to be. A \<open>char\<close> has
  eight bits, so the strings of the model are the Python strings whose code points are
  below 256.

  The values that travel through the module: \<^verbatim>\<open>None\<close>, the float \<^verbatim>\<open>nan\<close> (what
  pandas stores for an empty field), any other number (no arithmetic is done on them, so
  a finite float is the real it denotes), strings, and tuples (what \<^verbatim>\<open>re.findall\<close>
  returns for a pattern with several groups).
\<close>

datatype pyval = PyNone | NaN | Num real | Str string | PyTuple "pyval list"

text \<open>
  Exceptions are values. \<^verbatim>\<open>KeyError\<close> and \<^verbatim>\<open>IndexError\<close> are subclasses of
  \<^verbatim>\<open>LookupError\<close> in Python, which \<open>is_LookupError\<close> records for
  \<^verbatim>\<open>except LookupError\<close>.
\<close>

datatype pyerr =
    IOError
  | TypeError
  | KeyError
  | IndexError
  | LookupError
  | AttributeError
  | UnboundLocalError
  | ValueError string
  | ImportError string
  | OtherError string

fun is_LookupError :: "pyerr \<Rightarrow> bool" where
  "is_LookupError LookupError = True"
| "is_LookupError KeyError = True"
| "is_LookupError IndexError = True"
| "is_LookupError _ = False"

subsection \<open>TextStim and DynamicTextStim\<close>

text \<open>
  An object of class \<^verbatim>\<open>TextStim\<close> has the one attribute \<^verbatim>\<open>text\<close>; an object of
  class \<^verbatim>\<open>DynamicTextStim\<close> has \<^verbatim>\<open>text\<close>, \<^verbatim>\<open>order\<close>, \<^verbatim>\<open>onset\<close> and
  \<^verbatim>\<open>duration\<close>, in this order below. Neither \<^verbatim>\<open>__init__\<close> calls the one of
  the base class \<^verbatim>\<open>Stim\<close> (which is not part of the module), so these are all the
  attributes the module gives an object.
\<close>

datatype textstim =
    TextStim pyval
  | DynamicTextStim pyval pyval pyval pyval



fun get_onset :: "textstim \<Rightarrow> pyerr + pyval" where
  "get_onset (TextStim _) = Inl AttributeError"
| "get_onset (DynamicTextStim _ _ ons _) = Inr ons"

fun get_duration :: "textstim \<Rightarrow> pyerr + pyval" where
  "get_duration (TextStim _) = Inl AttributeError"
| "get_duration (DynamicTextStim _ _ _ dur) = Inr dur"

fun is_plain :: "textstim \<Rightarrow> bool" where
  "is_plain (TextStim _) = True"
| "is_plain (DynamicTextStim _ _ _ _) = False"

text \<open>
  \<^verbatim>\<open>TextStim.__init__(self, filename=None, text=None)\<close>: the first positional
  parameter is the file name. When it is not \<^verbatim>\<open>None\<close> the text is what
  \<^verbatim>\<open>open(filename).read()\<close> returns, and the argument \<^verbatim>\<open>text\<close> is dropped. The
  argument \<open>open_read\<close> is the file system: the content of the file that a value names,
  or the exception \<^verbatim>\<open>open\<close> raises on it.
\<close>

definition TextStim_init :: "(pyval \<Rightarrow> pyerr + string) \<Rightarrow> pyval \<Rightarrow> pyval \<Rightarrow> pyerr + textstim" where
  "TextStim_init open_read filename txt =
     (if filename \<noteq> PyNone
      then (case open_read filename of
              Inl e \<Rightarrow> Inl e
            | Inr content \<Rightarrow> Inr (TextStim (Str content)))
      else Inr (TextStim txt))"

text \<open>
  \<^verbatim>\<open>DynamicTextStim.__init__(self, text, order, onset=None, duration=None)\<close> stores
  the three timing attributes and calls \<^verbatim>\<open>TextStim.__init__(text=text)\<close>: the file
  name is \<^verbatim>\<open>None\<close> there, so no file is read.
\<close>

definition DynamicTextStim_init :: "pyval \<Rightarrow> pyval \<Rightarrow> pyval \<Rightarrow> pyval \<Rightarrow> textstim" where
  "DynamicTextStim_init txt ord ons dur = DynamicTextStim txt ord ons dur"

subsection \<open>Extractors, values, events and the timeline\<close>

text \<open>
  Modelled from the spec: \<^verbatim>\<open>Event\<close> and \<^verbatim>\<open>Timeline\<close> of \<^verbatim>\<open>featurex.core\<close>, which
  the module imports and which are not among the sources. An event has one onset and the
  values attached to it, keyed by extractor; a timeline is the sequence of its events.
  \<^verbatim>\<open>add_event\<close> without merging appends; with merging it looks for the first event
  of equal onset and unions the incoming values into it (the incoming value wins on a
  key both have), and appends when there is none.
\<close>

record 'v event =
  ev_onset :: pyval
  ev_values :: "(string \<times> 'v) list"

type_synonym 'v timeline = "'v event list"

fun put_value :: "string \<times> 'v \<Rightarrow> (string \<times> 'v) list \<Rightarrow> (string \<times> 'v) list" where
  "put_value kv [] = [kv]"
| "put_value kv (p # ps) = (if fst p = fst kv then kv # ps else p # put_value kv ps)"

definition add_value :: "'v event \<Rightarrow> string \<times> 'v \<Rightarrow> 'v event" where
  "add_value ev kv = ev\<lparr>ev_values := put_value kv (ev_values ev)\<rparr>"

fun merge_event :: "'v event \<Rightarrow> 'v timeline \<Rightarrow> 'v timeline" where
  "merge_event ev [] = [ev]"
| "merge_event ev (e # es) =
     (if ev_onset e = ev_onset ev
      then e\<lparr>ev_values := foldl (\<lambda>vs kv. put_value kv vs) (ev_values e) (ev_values ev)\<rparr> # es
      else e # merge_event ev es)"

definition add_event :: "'v timeline \<Rightarrow> 'v event \<Rightarrow> bool \<Rightarrow> 'v timeline" where
  "add_event tline ev merge = (if merge then merge_event ev tline else tline @ [ev])"

text \<open>
  An extractor is a black box with a name, a target class (the module compares
  \<^verbatim>\<open>ext.target.__name__\<close> with the name of the collection's class) and the method
  \<^verbatim>\<open>apply\<close>, which the module calls on one element (the result is a value) and on a
  whole collection (the result is a sequence of events): two fields here, one for each
  kind of argument. An extractor that raises is outside the model.
\<close>

record 'v extractor =
  ext_name :: string
  ext_target :: string
  apply_stim :: "textstim \<Rightarrow> 'v"
  apply_collection :: "textstim list \<Rightarrow> 'v event list"

text \<open>\<^verbatim>\<open>Value(stim, extractor, data)\<close> of \<^verbatim>\<open>featurex.core\<close>: the three arguments, kept.\<close>

record 'v stim_value =
  val_stim :: textstim
  val_extractor :: "'v extractor"
  val_data :: "string \<rightharpoonup> 'v"

text \<open>
  \<^verbatim>\<open>TextStim.extract(self, extractors)\<close>. The loop stores each result in the dict
  \<^verbatim>\<open>vals\<close> under the extractor's name; \<^verbatim>\<open>e\<close> is the loop variable, which the
  \<^verbatim>\<open>return\<close> after the loop reads. The loop state is the dict and the binding of
  \<^verbatim>\<open>e\<close> (\<open>None\<close> while it is unbound: reading it then raises
  \<^verbatim>\<open>UnboundLocalError\<close>).
\<close>

fun extract_loop ::
  "textstim \<Rightarrow> 'v extractor list \<Rightarrow> (string \<rightharpoonup> 'v) \<times> 'v extractor option
     \<Rightarrow> (string \<rightharpoonup> 'v) \<times> 'v extractor option" where
  "extract_loop self [] st = st"
| "extract_loop self (x # xs) (vals, e) =
     extract_loop self xs (vals(ext_name x \<mapsto> apply_stim x self), Some x)"

definition TextStim_extract :: "textstim \<Rightarrow> 'v extractor list \<Rightarrow> pyerr + 'v stim_value" where
  "TextStim_extract self extractors =
     (case extract_loop self extractors (Map.empty, None) of
        (vals, None) \<Rightarrow> Inl UnboundLocalError
      | (vals, Some e) \<Rightarrow> Inr \<lparr>val_stim = self, val_extractor = e, val_data = vals\<rparr>)"

text \<open>The last extractor of the list that has the name \<open>k\<close>, when there is one.\<close>

definition last_named :: "'v extractor list \<Rightarrow> string \<Rightarrow> 'v extractor option" where
  "last_named extractors k = find (\<lambda>x. ext_name x = k) (rev extractors)"

subsection \<open>ComplexTextStim: reading a tab-separated file\<close>

record complextextstim =
  elements :: "textstim list"

text \<open>
  \<^verbatim>\<open>str.strip()\<close> removes the white space at both ends of a string: the
  characters for which \<^verbatim>\<open>str.isspace\<close> holds, which below 256 are the code points
  9 to 13 (tab, line feed, vertical tab, form feed, carriage return), 28 to 31 (the four
  information separators), 32 (space), 133 (next line) and 160 (no-break space).
  \<^verbatim>\<open>str.split('\t')\<close> cuts at every tab, so that \<open>n\<close> tabs give \<open>n + 1\<close> parts,
  empty ones included.
\<close>

definition tab :: char where
  "tab = CHR 0x09"

definition newline :: char where
  "newline = CHR 0x0A"

definition is_space :: "char \<Rightarrow> bool" where
  "is_space c =
     (c \<in> set [CHR 0x09, CHR 0x0A, CHR 0x0B, CHR 0x0C, CHR 0x0D,
                 CHR 0x1C, CHR 0x1D, CHR 0x1E, CHR 0x1F, CHR 0x20, CHR 0x85, CHR 0xA0])"

definition strip :: "string \<Rightarrow> string" where
  "strip s = rev (dropWhile is_space (rev (dropWhile is_space s)))"

fun split_acc :: "char \<Rightarrow> string \<Rightarrow> string \<Rightarrow> string list" where
  "split_acc d acc [] = [rev acc]"
| "split_acc d acc (c # cs) =
     (if c = d then rev acc # split_acc d [] cs else split_acc d (c # acc) cs)"

definition split :: "char \<Rightarrow> string \<Rightarrow> string list" where
  "split d s = split_acc d [] s"

text \<open>
  \<^verbatim>\<open>open(filename).readline()\<close>: the content up to the first line feed, the line
  feed included when there is one. The content of a file is the string that
  \<^verbatim>\<open>open(filename).read()\<close> returns: the file decoded, every line end a line feed.
\<close>

definition readline :: "string \<Rightarrow> string" where
  "readline content =
     takeWhile (\<lambda>c. c \<noteq> newline) content @ (if newline \<in> set content then [newline] else [])"

text \<open>The dict \<^verbatim>\<open>tod_names = {'t': 'text', 'o': 'onset', 'd': 'duration'}\<close>.\<close>

definition tod_names :: "(char \<times> string) list" where
  "tod_names = [(CHR ''t'', ''text''), (CHR ''o'', ''onset''), (CHR ''d'', ''duration'')]"

text \<open>
  \<^verbatim>\<open>[tod_names[x] for x in columns]\<close>: a character that is not a key raises
  \<^verbatim>\<open>KeyError\<close>.
\<close>

fun names_of_columns :: "string \<Rightarrow> pyerr + string list" where
  "names_of_columns [] = Inr []"
| "names_of_columns (x # xs) =
     (case map_of tod_names x of
        None \<Rightarrow> Inl KeyError
      | Some n \<Rightarrow> (case names_of_columns xs of Inl e \<Rightarrow> Inl e | Inr ns \<Rightarrow> Inr (n # ns)))"

text \<open>
  Lines 71 to 75 of the module. \<open>first_line\<close> is what \<^verbatim>\<open>readline()\<close> returned.
  \<^verbatim>\<open>len(set(first_row) & set(tod_names.values()))\<close> is true when the two sets meet.
  The result \<open>None\<close> is \<^verbatim>\<open>col_names = None\<close>: pandas then takes the names from
  the first line of the file.
\<close>

definition has_header :: "string \<Rightarrow> bool" where
  "has_header first_line =
     (let first_row = split tab (strip first_line)
      in set first_row \<inter> set (map snd tod_names) \<noteq> {})"

definition col_names :: "string \<Rightarrow> string \<Rightarrow> pyerr + string list option" where
  "col_names first_line columns =
     (if has_header first_line then Inr None
      else (case names_of_columns columns of Inl e \<Rightarrow> Inl e | Inr ns \<Rightarrow> Inr (Some ns)))"


text \<open>
  A row of the frame, as \<^verbatim>\<open>data.iterrows()\<close> yields it: the index label of the row
  and the row itself, a pandas Series from column names to cells. \<^verbatim>\<open>'onset' not in r\<close>
  asks whether the Series has that column; \<^verbatim>\<open>r['text']\<close> raises \<^verbatim>\<open>KeyError\<close>
  without the column; \<^verbatim>\<open>r.get('duration', None)\<close> is \<^verbatim>\<open>None\<close> without it. The
  cell of an empty field is \<open>NaN\<close>: pandas never stores \<^verbatim>\<open>None\<close> for it.
\<close>

type_synonym series = "(string \<times> pyval) list"

type_synonym dataframe = "(pyval \<times> series) list"

definition has_column :: "series \<Rightarrow> string \<Rightarrow> bool" where
  "has_column r k = (map_of r k \<noteq> None)"

definition getitem :: "series \<Rightarrow> string \<Rightarrow> pyerr + pyval" where
  "getitem r k = (case map_of r k of None \<Rightarrow> Inl KeyError | Some v \<Rightarrow> Inr v)"

definition series_get :: "series \<Rightarrow> string \<Rightarrow> pyval \<Rightarrow> pyval" where
  "series_get r k dflt = (case map_of r k of None \<Rightarrow> dflt | Some v \<Rightarrow> v)"

text \<open>
  The body of the loop over the rows (lines 80 to 86): the element made from the row
  \<open>r\<close> with label \<open>i\<close>. Line 81 passes the cell to \<^verbatim>\<open>TextStim\<close> as its first
  positional argument, which is \<^verbatim>\<open>filename\<close>.
\<close>

definition make_elem ::
  "(pyval \<Rightarrow> pyerr + string) \<Rightarrow> pyval \<Rightarrow> pyval \<times> series \<Rightarrow> pyerr + textstim" where
  "make_elem open_read default_duration row =
     (let i = fst row; r = snd row in
      if \<not> has_column r ''onset''
      then (case getitem r ''text'' of
              Inl e \<Rightarrow> Inl e
            | Inr t \<Rightarrow> TextStim_init open_read t PyNone)
      else
        (let duration = series_get r ''duration'' PyNone;
             duration = (if duration = PyNone then default_duration else duration)
         in case getitem r ''text'' of
              Inl e \<Rightarrow> Inl e
            | Inr t \<Rightarrow>
                (case getitem r ''onset'' of
                   Inl e \<Rightarrow> Inl e
                 | Inr ons \<Rightarrow> Inr (DynamicTextStim_init t i ons duration))))"

text \<open>The loop: each element is appended to \<^verbatim>\<open>self.elements\<close>; an exception ends it.\<close>

fun from_rows ::
  "(pyval \<Rightarrow> pyerr + string) \<Rightarrow> pyval \<Rightarrow> dataframe \<Rightarrow> complextextstim
     \<Rightarrow> pyerr + complextextstim" where
  "from_rows open_read default_duration [] self = Inr self"
| "from_rows open_read default_duration (row # rows) self =
     (case make_elem open_read default_duration row of
        Inl e \<Rightarrow> Inl e
      | Inr elem \<Rightarrow>
          from_rows open_read default_duration rows (self\<lparr>elements := elements self @ [elem]\<rparr>))"

text \<open>
  \<^verbatim>\<open>ComplexTextStim._from_file\<close>. \<open>read_csv filename names\<close> is
  \<^verbatim>\<open>pd.read_csv(filename, sep='\t', names=names)\<close>: the rows of the frame with their
  labels, or the exception of the parser.
\<close>

definition from_file ::
  "(pyval \<Rightarrow> pyerr + string) \<Rightarrow> (string \<Rightarrow> string list option \<Rightarrow> pyerr + dataframe)
     \<Rightarrow> complextextstim \<Rightarrow> string \<Rightarrow> string \<Rightarrow> pyval \<Rightarrow> pyerr + complextextstim" where
  "from_file open_read read_csv self filename columns default_duration =
     (case open_read (Str filename) of
        Inl e \<Rightarrow> Inl e
      | Inr content \<Rightarrow>
          (case col_names (readline content) columns of
             Inl e \<Rightarrow> Inl e
           | Inr names \<Rightarrow>
               (case read_csv filename names of
                  Inl e \<Rightarrow> Inl e
                | Inr data \<Rightarrow> from_rows open_read default_duration data self)))"

text \<open>
  \<^verbatim>\<open>ComplexTextStim.__init__(self, filename=None, columns='tod', default_duration=None)\<close>:
  the specification's \<^verbatim>\<open>fromFile\<close> is the case of a file name.
\<close>

definition ComplexTextStim_init ::
  "(pyval \<Rightarrow> pyerr + string) \<Rightarrow> (string \<Rightarrow> string list option \<Rightarrow> pyerr + dataframe)
     \<Rightarrow> string option \<Rightarrow> string \<Rightarrow> pyval \<Rightarrow> pyerr + complextextstim" where
  "ComplexTextStim_init open_read read_csv filename columns default_duration =
     (case filename of
        None \<Rightarrow> Inr \<lparr>elements = []\<rparr>
      | Some f \<Rightarrow> from_file open_read read_csv \<lparr>elements = []\<rparr> f columns default_duration)"


subsection \<open>The built-in pattern and \<^verbatim>\<open>re.findall\<close> on it\<close>

text \<open>
  The constructs of regular expressions that the pattern of line 151 uses: a character
  set (a list of inclusive ranges), concatenation, alternation, the greedy repetitions
  \<^verbatim>\<open>{n,}\<close> and \<^verbatim>\<open>+\<close> (which is \<^verbatim>\<open>{1,}\<close>), and the two lookaheads.
\<close>

datatype regex =
    Chars "(char \<times> char) list"
  | Seq regex regex
  | Alt regex regex
  | AtLeast nat regex
  | Lookahead regex
  | NegLookahead regex

definition in_ranges :: "char \<Rightarrow> (char \<times> char) list \<Rightarrow> bool" where
  "in_ranges c rs =
     list_ex (\<lambda>r. (of_char (fst r) :: nat) \<le> of_char c \<and> (of_char c :: nat) \<le> of_char (snd r)) rs"

fun rsize :: "regex \<Rightarrow> nat" where
  "rsize (Chars _) = 1"
| "rsize (Seq a b) = Suc (rsize a + rsize b)"
| "rsize (Alt a b) = Suc (rsize a + rsize b)"
| "rsize (AtLeast _ r) = Suc (rsize r)"
| "rsize (Lookahead r) = Suc (rsize r)"
| "rsize (NegLookahead r) = Suc (rsize r)"

text \<open>
  \<open>rmatch r s\<close> lists what is left of \<open>s\<close> after each way of matching \<open>r\<close> at its
  start, in the order in which the backtracking matcher of Python tries them: the first
  is the match it reports. An alternation tries its left side first; a greedy repetition
  tries one more round before it tries to stop; a lookahead consumes nothing. A round of
  a repetition that consumes nothing is not repeated.
\<close>

function rmatch :: "regex \<Rightarrow> string \<Rightarrow> string list" where
  "rmatch (Chars rs) s =
     (case s of [] \<Rightarrow> [] | c # cs \<Rightarrow> if in_ranges c rs then [cs] else [])"
| "rmatch (Seq a b) s = concat (map (rmatch b) (rmatch a s))"
| "rmatch (Alt a b) s = rmatch a s @ rmatch b s"
| "rmatch (AtLeast n r) s =
     concat (map (rmatch (AtLeast (n - 1) r)) (filter (\<lambda>t. length t < length s) (rmatch r s)))
     @ (if n = 0 then [s] else [])"
| "rmatch (Lookahead r) s = (if rmatch r s = [] then [] else [s])"
| "rmatch (NegLookahead r) s = (if rmatch r s = [] then [s] else [])"
  by pat_completeness auto
termination
  by (relation "measures [\<lambda>p. rsize (fst p), \<lambda>p. length (snd p)]") auto

text \<open>
  \<^verbatim>\<open>re.findall\<close>: scan from the left; where the pattern matches, report the match
  and go on behind it; where it does not, go on one character further. After an empty
  match the scan also moves one character on.
\<close>

function findall :: "regex \<Rightarrow> string \<Rightarrow> string list" where
  "findall r [] = (if rmatch r [] = [] then [] else [[]])"
| "findall r (c # cs) =
     (case rmatch r (c # cs) of
        [] \<Rightarrow> findall r cs
      | t # _ \<Rightarrow>
          if length t < Suc (length cs)
          then take (Suc (length cs) - length t) (c # cs) # findall r t
          else [] # findall r cs)"
  by pat_completeness auto
termination
  by (relation "measure (\<lambda>p. length (snd p))") auto

text \<open>
  The pattern of line 151. In the Python string literal \<^verbatim>\<open>\'\<close> is the apostrophe and
  \<^verbatim>\<open>\-\<close>, \<^verbatim>\<open>\w\<close> reach the \<^verbatim>\<open>re\<close> module as they are, so the expression is
  \<^verbatim>\<open>[A-Z\-']{2,}(?![a-z])|[A-Z\-'][a-z\-']+(?=[A-Z])|['\w\-]+\<close>. The class \<^verbatim>\<open>\w\<close>
  of a string pattern is the underscore and every character that \<^verbatim>\<open>str.isalnum\<close>
  accepts: below 256 these are the digits and letters of ASCII and the code points 170,
  178, 179, 181, 185, 186, 188 to 190, 192 to 214, 216 to 246 and 248 to 255 (the letters
  and numbers of Latin-1; 215 and 247 are the signs of multiplication and division).
\<close>

definition apostrophe :: char where
  "apostrophe = CHR 0x27"

definition upper :: "(char \<times> char) list" where
  "upper = [(CHR ''A'', CHR ''Z'')]"

definition lower :: "(char \<times> char) list" where
  "lower = [(CHR ''a'', CHR ''z'')]"

definition hyphen_apostrophe :: "(char \<times> char) list" where
  "hyphen_apostrophe = [(CHR ''-'', CHR ''-''), (apostrophe, apostrophe)]"

definition word_chars :: "(char \<times> char) list" where
  "word_chars =
     [(CHR ''0'', CHR ''9''), (CHR ''A'', CHR ''Z''), (CHR ''_'', CHR ''_''), (CHR ''a'', CHR ''z''),
      (CHR 0xAA, CHR 0xAA), (CHR 0xB2, CHR 0xB3), (CHR 0xB5, CHR 0xB5), (CHR 0xB9, CHR 0xBA),
      (CHR 0xBC, CHR 0xBE), (CHR 0xC0, CHR 0xD6), (CHR 0xD8, CHR 0xF6), (CHR 0xF8, CHR 0xFF)]"

definition patt :: regex where
  "patt =
     Alt (Seq (AtLeast 2 (Chars (upper @ hyphen_apostrophe))) (NegLookahead (Chars lower)))
    (Alt (Seq (Seq (Chars (upper @ hyphen_apostrophe)) (AtLeast 1 (Chars (lower @ hyphen_apostrophe))))
              (Lookahead (Chars upper)))
         (AtLeast 1 (Chars ((apostrophe, apostrophe) # word_chars @ [(CHR ''-'', CHR ''-'')]))))"

subsection \<open>ComplexTextStim.from\_text\<close>

text \<open>
  The argument \<^verbatim>\<open>tokenizer\<close>: a string (a pattern for \<^verbatim>\<open>re.findall\<close>) or an object
  with the method \<^verbatim>\<open>tokenize\<close>.
\<close>

datatype tokenizer =
    Pattern string
  | Tokenizer "string \<Rightarrow> pyerr + pyval list"

text \<open>
  The module \<^verbatim>\<open>nltk\<close>, when it can be imported: the four functions that
  \<^verbatim>\<open>from_text\<close> calls, each with its result or the exception it raises.
\<close>

record nltk_module =
  data_find :: "string \<Rightarrow> pyerr + unit"
  download :: "string \<Rightarrow> pyerr + unit"
  word_tokenize :: "string \<Rightarrow> string \<Rightarrow> pyerr + pyval list"
  sent_tokenize :: "string \<Rightarrow> string \<Rightarrow> pyerr + pyval list"

definition startswith :: "string \<Rightarrow> string \<Rightarrow> bool" where
  "startswith s p = (take (length p) s = p)"

definition value_error_message :: string where
  "value_error_message = ''unit must be either 'word' or 'sentence'' @ [CHR 0x27]"

definition import_error_message :: string where
  "import_error_message =
     ''If no tokenizer is passed and nltk is not installed, unit must be set to  'word'.''"

text \<open>
  The body of the \<^verbatim>\<open>try\<close> (lines 133 to 144). \<open>nltk\<close> is \<open>None\<close> when
  \<^verbatim>\<open>import nltk\<close> raises. The inner handler catches a \<^verbatim>\<open>LookupError\<close> of
  \<^verbatim>\<open>nltk.data.find\<close> only, and downloads.
\<close>

definition try_nltk :: "nltk_module option \<Rightarrow> string \<Rightarrow> string \<Rightarrow> string \<Rightarrow> pyerr + pyval list" where
  "try_nltk nltk txt unit language =
     (case nltk of
        None \<Rightarrow> Inl (ImportError ''No module named nltk'')
      | Some m \<Rightarrow>
          (case (case data_find m ''punkt.zip'' of
                   Inl e \<Rightarrow> if is_LookupError e then download m ''punkt'' else Inl e
                 | Inr u \<Rightarrow> Inr u) of
             Inl e \<Rightarrow> Inl e
           | Inr _ \<Rightarrow>
               if unit = ''word'' then word_tokenize m txt language
               else if startswith unit ''sent'' then sent_tokenize m txt language
               else Inl (ValueError value_error_message)))"

text \<open>
  Lines 126 to 152: the tokens. The bare \<^verbatim>\<open>except:\<close> of line 145 catches every
  exception of the \<^verbatim>\<open>try\<close>. \<open>re_findall\<close> is \<^verbatim>\<open>re.findall\<close> on a pattern of the
  caller; on the built-in pattern it is \<open>findall patt\<close>.
\<close>

definition tokens_of ::
  "(string \<Rightarrow> string \<Rightarrow> pyerr + pyval list) \<Rightarrow> nltk_module option
     \<Rightarrow> string \<Rightarrow> string \<Rightarrow> tokenizer option \<Rightarrow> string \<Rightarrow> pyerr + pyval list" where
  "tokens_of re_findall nltk txt unit tokenizer language =
     (case tokenizer of
        Some (Pattern p) \<Rightarrow> re_findall p txt
      | Some (Tokenizer tokenize) \<Rightarrow> tokenize txt
      | None \<Rightarrow>
          (case try_nltk nltk txt unit language of
             Inr tokens \<Rightarrow> Inr tokens
           | Inl _ \<Rightarrow>
               if unit \<noteq> ''word'' then Inl (ImportError import_error_message)
               else Inr (map Str (findall patt txt))))"

text \<open>
  Lines 154 to 157: a new collection, and \<^verbatim>\<open>TextStim(text=t)\<close> appended for each
  token (the file name is \<^verbatim>\<open>None\<close> in that call, so it is \<open>TextStim t\<close>).
\<close>

fun append_tokens :: "complextextstim \<Rightarrow> pyval list \<Rightarrow> complextextstim" where
  "append_tokens cts [] = cts"
| "append_tokens cts (t # ts) = append_tokens (cts\<lparr>elements := elements cts @ [TextStim t]\<rparr>) ts"

definition from_text ::
  "(string \<Rightarrow> string \<Rightarrow> pyerr + pyval list) \<Rightarrow> nltk_module option
     \<Rightarrow> string \<Rightarrow> string \<Rightarrow> tokenizer option \<Rightarrow> string \<Rightarrow> pyerr + complextextstim" where
  "from_text re_findall nltk txt unit tokenizer language =
     (case tokens_of re_findall nltk txt unit tokenizer language of
        Inl e \<Rightarrow> Inl e
      | Inr tokens \<Rightarrow> Inr (append_tokens \<lparr>elements = []\<rparr> tokens))"

subsection \<open>ComplexTextStim.extract\<close>

text \<open>
  The inner loop of the element-level branch (lines 102 to 105): for each element an
  event with the element's onset, which is read first, then the value of the extractor
  attached, then the event added to the timeline.
\<close>

fun element_events ::
  "'v extractor \<Rightarrow> bool \<Rightarrow> textstim list \<Rightarrow> 'v timeline \<Rightarrow> pyerr + 'v timeline" where
  "element_events ext merge_events [] timeline = Inr timeline"
| "element_events ext merge_events (elem # elems) timeline =
     (case get_onset elem of
        Inl e \<Rightarrow> Inl e
      | Inr ons \<Rightarrow>
          element_events ext merge_events elems
            (add_event timeline
               (add_value \<lparr>ev_onset = ons, ev_values = []\<rparr> (ext_name ext, apply_stim ext elem))
               merge_events))"

text \<open>
  The loop over the extractors (lines 96 to 105). The class of the collection is
  \<^verbatim>\<open>ComplexTextStim\<close>.
\<close>

fun extract_from ::
  "complextextstim \<Rightarrow> 'v extractor list \<Rightarrow> bool \<Rightarrow> 'v timeline \<Rightarrow> pyerr + 'v timeline" where
  "extract_from self [] merge_events timeline = Inr timeline"
| "extract_from self (ext # exts) merge_events timeline =
     (if ext_target ext = ''ComplexTextStim''
      then extract_from self exts merge_events
             (foldl (\<lambda>tline ev. add_event tline ev merge_events) timeline
                (apply_collection ext (elements self)))
      else (case element_events ext merge_events (elements self) timeline of
              Inl e \<Rightarrow> Inl e
            | Inr timeline' \<Rightarrow> extract_from self exts merge_events timeline'))"

definition ComplexTextStim_extract ::
  "complextextstim \<Rightarrow> 'v extractor list \<Rightarrow> bool \<Rightarrow> pyerr + 'v timeline" where
  "ComplexTextStim_extract self extractors merge_events =
     extract_from self extractors merge_events []"

subsection \<open>Example inputs\<close>

text \<open>
  A file \<^verbatim>\<open>story.tsv\<close> without a header, with the three columns text, onset and
  duration and two rows, the first with an empty duration field; and a file
  \<^verbatim>\<open>words.tsv\<close> with the header \<^verbatim>\<open>text\<close> and the one row \<^verbatim>\<open>hello\<close>. No other
  file exists. The frames are the ones pandas parses from them. When the lines of a
  file have more fields than there are names, pandas takes the surplus fields at the
  start of each line as the index labels of the rows and gives the names to the fields
  behind them: read with the two names \<^verbatim>\<open>text\<close> and \<^verbatim>\<open>onset\<close>, the rows of
  \<^verbatim>\<open>story.tsv\<close> have the labels \<^verbatim>\<open>hello\<close> and \<^verbatim>\<open>world\<close>, the second field
  is the column \<^verbatim>\<open>text\<close> and the third the column \<^verbatim>\<open>onset\<close>.
\<close>

definition story_content :: string where
  "story_content =
     ''hello'' @ [tab] @ ''1'' @ [tab, newline] @ ''world'' @ [tab] @ ''2'' @ [tab] @ ''3'' @ [newline]"

definition words_content :: string where
  "words_content = ''text'' @ [newline] @ ''hello'' @ [newline]"

definition example_open_read :: "pyval \<Rightarrow> pyerr + string" where
  "example_open_read f =
     (if f = Str ''story.tsv'' then Inr story_content
      else if f = Str ''words.tsv'' then Inr words_content
      else Inl IOError)"

definition story_frame :: dataframe where
  "story_frame =
     [(Num 0, [(''text'', Str ''hello''), (''onset'', Num 1), (''duration'', NaN)]),
      (Num 1, [(''text'', Str ''world''), (''onset'', Num 2), (''duration'', Num 3)])]"

definition story_frame_to :: dataframe where
  "story_frame_to =
     [(Str ''hello'', [(''text'', Num 1), (''onset'', NaN)]),
      (Str ''world'', [(''text'', Num 2), (''onset'', Num 3)])]"

definition words_frame :: dataframe where
  "words_frame = [(Num 0, [(''text'', Str ''hello'')])]"

definition example_read_csv :: "string \<Rightarrow> string list option \<Rightarrow> pyerr + dataframe" where
  "example_read_csv f names =
     (if f = ''story.tsv'' \<and> names = Some [''text'', ''onset'', ''duration''] then Inr story_frame
      else if f = ''story.tsv'' \<and> names = Some [''text'', ''onset''] then Inr story_frame_to
      else if f = ''words.tsv'' \<and> names = None then Inr words_frame
      else Inl IOError)"

text \<open>
  An installed \<^verbatim>\<open>nltk\<close> whose tokenizers return the text as one token, and
  extractors that return a fixed number for every element.
\<close>

definition example_nltk :: nltk_module where
  "example_nltk =
     \<lparr>data_find = (\<lambda>_. Inr ()), download = (\<lambda>_. Inr ()),
      word_tokenize = (\<lambda>t _. Inr [Str t]), sent_tokenize = (\<lambda>t _. Inr [Str t])\<rparr>"

definition const_extractor :: "string \<Rightarrow> nat \<Rightarrow> nat extractor" where
  "const_extractor n v =
     \<lparr>ext_name = n, ext_target = ''TextStim'', apply_stim = (\<lambda>_. v), apply_collection = (\<lambda>_. [])\<rparr>"

section \<open>Properties\<close>

subsection \<open>Auxiliary facts\<close>

lemma append_tokens_eq:
  "append_tokens cts ts = cts\<lparr>elements := elements cts @ map TextStim ts\<rparr>"
  by (induction ts arbitrary: cts) auto

lemma TextStim_init_text_only: "TextStim_init open_read PyNone t = Inr (TextStim t)"
  by (simp add: TextStim_init_def)

lemma make_elem_no_onset:
  "\<not> has_column r ''onset'' \<Longrightarrow> getitem r ''text'' = Inr t \<Longrightarrow>
   make_elem open_read dd (i, r) = TextStim_init open_read t PyNone"
  by (simp add: make_elem_def)

text \<open>
  The default duration is what a row gets when the frame has no duration column (and an
  onset column): the one case in which \<^verbatim>\<open>r.get('duration', None)\<close> is \<^verbatim>\<open>None\<close>.
\<close>

lemma make_elem_no_duration_column:
  "has_column r ''onset'' \<Longrightarrow> \<not> has_column r ''duration'' \<Longrightarrow>
   getitem r ''text'' = Inr t \<Longrightarrow> getitem r ''onset'' = Inr ons \<Longrightarrow>
   make_elem open_read dd (i, r) = Inr (DynamicTextStim t i ons dd)"
  by (auto simp: make_elem_def series_get_def has_column_def DynamicTextStim_init_def)

lemma make_elem_duration_cell:
  "has_column r ''onset'' \<Longrightarrow> map_of r ''duration'' = Some d \<Longrightarrow> d \<noteq> PyNone \<Longrightarrow>
   getitem r ''text'' = Inr t \<Longrightarrow> getitem r ''onset'' = Inr ons \<Longrightarrow>
   make_elem open_read dd (i, r) = Inr (DynamicTextStim t i ons d)"
  by (auto simp: make_elem_def series_get_def has_column_def DynamicTextStim_init_def)

lemma find_snoc:
  "find P (xs @ [x]) =
     (case find P xs of None \<Rightarrow> (if P x then Some x else None) | Some y \<Rightarrow> Some y)"
  by (induction xs) auto

lemma find_SomeD: "find P xs = Some y \<Longrightarrow> y \<in> set xs \<and> P y"
  by (induction xs) (auto split: if_splits)

lemma extract_loop_vals:
  "fst (extract_loop self xs (vals, e)) k =
     (case find (\<lambda>x. ext_name x = k) (rev xs) of
        None \<Rightarrow> vals k
      | Some x \<Rightarrow> Some (apply_stim x self))"
  by (induction xs arbitrary: vals e) (auto simp: find_snoc split: option.splits)

lemma extract_loop_last:
  "snd (extract_loop self xs (vals, e)) = (if xs = [] then e else Some (last xs))"
  by (induction xs arbitrary: vals e) auto

lemma TextStim_extract_eq:
  assumes "extractors \<noteq> []"
  shows "TextStim_extract self extractors =
     Inr \<lparr>val_stim = self, val_extractor = last extractors,
          val_data = (\<lambda>k. map_option (\<lambda>x. apply_stim x self) (last_named extractors k))\<rparr>"
proof -
  obtain vals e where st: "extract_loop self extractors (Map.empty, None) = (vals, e)"
    by (cases "extract_loop self extractors (Map.empty, None)")
  have e: "e = Some (last extractors)"
    using extract_loop_last [of self extractors Map.empty None] st assms by simp
  have "vals k = map_option (\<lambda>x. apply_stim x self) (last_named extractors k)" for k
    using extract_loop_vals [of self extractors Map.empty None k] st
    by (simp add: last_named_def split: option.splits)
  then have "vals = (\<lambda>k. map_option (\<lambda>x. apply_stim x self) (last_named extractors k))"
    by (rule ext)
  with st e show ?thesis
    by (simp add: TextStim_extract_def)
qed

lemma dom_last_named: "dom (\<lambda>k. map_option f (last_named xs k)) = ext_name ` set xs"
  by (auto simp: last_named_def dom_def find_None_iff)

lemma last_named_distinct:
  assumes d: "distinct (map ext_name xs)" and m: "e \<in> set xs"
  shows "last_named xs (ext_name e) = Some e"
proof -
  from m have "find (\<lambda>x. ext_name x = ext_name e) (rev xs) \<noteq> None"
    by (auto simp: find_None_iff)
  then obtain y where y: "find (\<lambda>x. ext_name x = ext_name e) (rev xs) = Some y"
    by auto
  then have "y \<in> set xs" "ext_name y = ext_name e"
    using find_SomeD [OF y] by auto
  with d m have "y = e"
    by (meson distinct_map inj_onD)
  with y show ?thesis
    by (simp add: last_named_def)
qed




lemma element_events_plain:
  "\<exists>e \<in> set elems. is_plain e \<Longrightarrow> element_events ext m elems timeline = Inl AttributeError"
proof (induction elems arbitrary: timeline)
  case Nil
  then show ?case by simp
next
  case (Cons elem elems)
  show ?case
  proof (cases elem)
    case (TextStim t)
    then show ?thesis by simp
  next
    case (DynamicTextStim t ord ons dur)
    with Cons.prems have "\<exists>e \<in> set elems. is_plain e" by simp
    with DynamicTextStim Cons.IH show ?thesis by simp
  qed
qed

lemma extract_from_plain:
  "\<exists>e \<in> set (elements self). is_plain e \<Longrightarrow>
   \<exists>ext \<in> set exts. ext_target ext \<noteq> ''ComplexTextStim'' \<Longrightarrow>
   extract_from self exts m timeline = Inl AttributeError"
proof (induction exts arbitrary: timeline)
  case Nil
  then show ?case by simp
next
  case (Cons ext exts)
  show ?case
  proof (cases "ext_target ext = ''ComplexTextStim''")
    case True
    with Cons.prems have "\<exists>x \<in> set exts. ext_target x \<noteq> ''ComplexTextStim''" by auto
    with True Cons.IH Cons.prems(1) show ?thesis by simp
  next
    case False
    with element_events_plain [OF Cons.prems(1), of ext m timeline] show ?thesis by simp
  qed
qed













text \<open>
  Two characters outside ASCII: the unit separator (code point 31) is white space for
  \<^verbatim>\<open>strip\<close>, and the letter e with acute accent (code point 233) is a word character.
\<close>

lemma has_header_unit_separator: "has_header (''text'' @ [CHR 0x1F, newline])"
  by (simp add: has_header_def strip_def is_space_def split_def tab_def newline_def
      tod_names_def)

lemma findall_patt_latin1: "findall patt (''caf'' @ [CHR 0xE9]) = [''caf'' @ [CHR 0xE9]]"
  by code_simp


subsection \<open>Reading a file\<close>

text \<open>
  Claim C1. In \<^verbatim>\<open>fromFile\<close>, a data row without an onset field should give a plain
  element whose text is the row's text, built from the text alone, with no file read.
  The code passes the cell as the first positional argument of \<^verbatim>\<open>TextStim\<close>, which
  is \<^verbatim>\<open>filename\<close>: the element is built by opening a file of that name. For the file
  \<^verbatim>\<open>words.tsv\<close> (header \<^verbatim>\<open>text\<close>, one row \<^verbatim>\<open>hello\<close>) the call raises
  \<^verbatim>\<open>IOError\<close> when no file \<^verbatim>\<open>hello\<close> exists, and when one exists with the content
  \<^verbatim>\<open>bye\<close> the element's text is \<^verbatim>\<open>bye\<close>, not \<^verbatim>\<open>hello\<close>.
\<close>

theorem from_file_plain_row_opens_file:
  "ComplexTextStim_init example_open_read example_read_csv (Some ''words.tsv'') ''tod'' PyNone
     = Inl IOError
   \<and> ComplexTextStim_init
       (\<lambda>f. if f = Str ''hello'' then Inr ''bye'' else example_open_read f)
       example_read_csv (Some ''words.tsv'') ''tod'' PyNone
     = Inr \<lparr>elements = [TextStim (Str ''bye'')]\<rparr>"
  by (simp add: ComplexTextStim_init_def from_file_def example_open_read_def
      example_read_csv_def words_content_def words_frame_def readline_def newline_def
      col_names_def has_header_def strip_def is_space_def split_def tab_def tod_names_def
      make_elem_def has_column_def getitem_def TextStim_init_def)

text \<open>
  Claim C2. With a default duration, a row whose duration field is present but empty
  should get the default (1.5 for a default of 1.5), and without a default it should get
  \<^verbatim>\<open>None\<close>. The code replaces the duration only when it \<^verbatim>\<open>is None\<close>, which is the
  case of a missing column; the cell of an empty field is \<open>NaN\<close>, and it stays. For
  \<^verbatim>\<open>story.tsv\<close>, whose first row has an empty duration field, the first element has
  the duration \<open>NaN\<close> with the default 1.5 and without a default alike.
\<close>

theorem from_file_empty_duration_is_nan:
  "ComplexTextStim_init example_open_read example_read_csv (Some ''story.tsv'') ''tod'' (Num 1.5)
     = Inr \<lparr>elements = [DynamicTextStim (Str ''hello'') (Num 0) (Num 1) NaN,
                          DynamicTextStim (Str ''world'') (Num 1) (Num 2) (Num 3)]\<rparr>
   \<and> ComplexTextStim_init example_open_read example_read_csv (Some ''story.tsv'') ''tod'' PyNone
     = Inr \<lparr>elements = [DynamicTextStim (Str ''hello'') (Num 0) (Num 1) NaN,
                          DynamicTextStim (Str ''world'') (Num 1) (Num 2) (Num 3)]\<rparr>"
  by (simp add: ComplexTextStim_init_def from_file_def example_open_read_def
      example_read_csv_def story_content_def story_frame_def readline_def newline_def
      col_names_def has_header_def strip_def is_space_def split_def tab_def tod_names_def
      make_elem_def has_column_def getitem_def series_get_def DynamicTextStim_init_def)




subsection \<open>The names of the columns\<close>




subsection \<open>Cutting a text into tokens\<close>

text \<open>
  Claim C3. Without a tokenizer, a unit that is neither \<^verbatim>\<open>word\<close> nor starts with
  \<^verbatim>\<open>sent\<close> should fail with a \<^verbatim>\<open>ValueError\<close> that names the allowed values. The
  code raises that \<^verbatim>\<open>ValueError\<close> inside the \<^verbatim>\<open>try\<close> whose bare \<^verbatim>\<open>except:\<close>
  catches it, and the handler raises \<^verbatim>\<open>ImportError\<close> for every unit other than
  \<^verbatim>\<open>word\<close>: whether \<^verbatim>\<open>nltk\<close> is installed or not, the call fails with the
  \<^verbatim>\<open>ImportError\<close>, never with the \<^verbatim>\<open>ValueError\<close>.
\<close>

theorem from_text_invalid_unit_import_error:
  assumes "unit \<noteq> ''word''" and "\<not> startswith unit ''sent''"
  shows "from_text re_findall nltk txt unit None language = Inl (ImportError import_error_message)"
  using assms
  by (auto simp: from_text_def tokens_of_def try_nltk_def split: option.splits sum.splits)

theorem from_text_invalid_unit_import_error_witness:
  "''paragraph'' \<noteq> ''word'' \<and> \<not> startswith ''paragraph'' ''sent'' \<and>
   try_nltk (Some example_nltk) ''Hello world'' ''paragraph'' ''english''
     = Inl (ValueError value_error_message) \<and>
   from_text (\<lambda>_ _. Inr []) (Some example_nltk) ''Hello world'' ''paragraph'' None ''english''
     = Inl (ImportError import_error_message)"
proof -
  have 1: "''paragraph'' \<noteq> ''word''" by simp
  have 2: "\<not> startswith ''paragraph'' ''sent''" by (simp add: startswith_def)
  have 3: "try_nltk (Some example_nltk) ''Hello world'' ''paragraph'' ''english''
             = Inl (ValueError value_error_message)"
    by (simp add: try_nltk_def example_nltk_def startswith_def)
  from 1 2 3 from_text_invalid_unit_import_error [OF 1 2] show ?thesis by simp
qed

text \<open>
  Claim C7. Without a tokenizer, when the external tokenizer is unavailable (the import
  of \<^verbatim>\<open>nltk\<close>, the lookup and download of its data or its tokenizer raised), the call
  fails with \<^verbatim>\<open>ImportError\<close> for every unit other than \<^verbatim>\<open>word\<close>, and for
  \<^verbatim>\<open>word\<close> it returns the tokens of the built-in pattern.
\<close>

theorem from_text_without_nltk:
  assumes "try_nltk nltk txt unit language = Inl e"
  shows "from_text re_findall nltk txt unit None language =
     (if unit = ''word''
      then Inr \<lparr>elements = map (\<lambda>t. TextStim (Str t)) (findall patt txt)\<rparr>
      else Inl (ImportError import_error_message))"
  using assms by (simp add: from_text_def tokens_of_def append_tokens_eq comp_def)

theorem from_text_without_nltk_witness:
  "try_nltk None ''a b'' ''word'' ''english'' = Inl (ImportError ''No module named nltk'') \<and>
   from_text (\<lambda>_ _. Inr []) None ''a b'' ''word'' None ''english''
     = Inr \<lparr>elements = [TextStim (Str ''a''), TextStim (Str ''b'')]\<rparr> \<and>
   try_nltk None ''a b'' ''sentence'' ''english'' = Inl (ImportError ''No module named nltk'') \<and>
   from_text (\<lambda>_ _. Inr []) None ''a b'' ''sentence'' None ''english''
     = Inl (ImportError import_error_message)"
proof -
  have w: "try_nltk None ''a b'' ''word'' ''english'' = Inl (ImportError ''No module named nltk'')"
    by (simp add: try_nltk_def)
  have s: "try_nltk None ''a b'' ''sentence'' ''english'' = Inl (ImportError ''No module named nltk'')"
    by (simp add: try_nltk_def)
  have f: "findall patt ''a b'' = [''a'', ''b'']"
    by code_simp
  from from_text_without_nltk [OF w, of "\<lambda>_ _. Inr []"] f
  have 1: "from_text (\<lambda>_ _. Inr []) None ''a b'' ''word'' None ''english''
             = Inr \<lparr>elements = [TextStim (Str ''a''), TextStim (Str ''b'')]\<rparr>"
    by (simp del: findall.simps)
  from from_text_without_nltk [OF s, of "\<lambda>_ _. Inr []"]
  have 2: "from_text (\<lambda>_ _. Inr []) None ''a b'' ''sentence'' None ''english''
             = Inl (ImportError import_error_message)"
    by simp
  from w s 1 2 show ?thesis by simp
qed

text \<open>
  Claim C8. With a pattern string as tokenizer, the result is decided by the text and
  the pattern alone: when \<^verbatim>\<open>re.findall\<close> returns its matches, the collection is new
  and holds exactly one plain element per match, in the order of the matches, and when
  \<^verbatim>\<open>re.findall\<close> raises, so does the call. Unit, language and \<^verbatim>\<open>nltk\<close> play no
  part.
\<close>

theorem from_text_pattern_tokens:
  "from_text re_findall nltk txt unit (Some (Pattern p)) language =
     (case re_findall p txt of
        Inl e \<Rightarrow> Inl e
      | Inr ms \<Rightarrow> Inr \<lparr>elements = map TextStim ms\<rparr>)"
  by (simp add: from_text_def tokens_of_def append_tokens_eq split: sum.splits)

text \<open>
  Claim C9. Without \<^verbatim>\<open>nltk\<close> and with the unit \<^verbatim>\<open>word\<close>, the text
  \<^verbatim>\<open>It's a wonderful life.\<close> gives exactly the tokens \<^verbatim>\<open>It's\<close>, \<^verbatim>\<open>a\<close>,
  \<^verbatim>\<open>wonderful\<close>, \<^verbatim>\<open>life\<close>: the full stop is in no token.
\<close>

theorem from_text_wonderful_life:
  "findall patt ''It's a wonderful life.'' = [''It's'', ''a'', ''wonderful'', ''life''] \<and>
   from_text re_findall None ''It's a wonderful life.'' ''word'' None language =
     Inr \<lparr>elements = [TextStim (Str ''It's''), TextStim (Str ''a''),
                        TextStim (Str ''wonderful''), TextStim (Str ''life'')]\<rparr>"
proof -
  have "findall patt ''It's a wonderful life.'' = [''It's'', ''a'', ''wonderful'', ''life'']"
    by code_simp
  then show ?thesis
    by (simp add: from_text_def tokens_of_def try_nltk_def append_tokens_eq del: findall.simps)
qed

subsection \<open>Extraction\<close>

text \<open>
  Claim C4, as amended. For a non-empty list of extractors, \<^verbatim>\<open>TextStim.extract\<close>
  returns one value, for the stimulus itself, whose extractor is the last of the list,
  and whose dict has one entry per name of an extractor: under a name stands the result
  of the last extractor of that name. When the names are pairwise distinct the dict has
  one entry per extractor, each extractor's own result under its name.
\<close>

theorem TextStim_extract_value:
  assumes "extractors \<noteq> []"
  shows "\<exists>vals.
     TextStim_extract self extractors =
       Inr \<lparr>val_stim = self, val_extractor = last extractors, val_data = vals\<rparr>
     \<and> vals = (\<lambda>k. map_option (\<lambda>x. apply_stim x self) (last_named extractors k))
     \<and> dom vals = ext_name ` set extractors
     \<and> (distinct (map ext_name extractors) \<longrightarrow>
          card (dom vals) = length extractors
          \<and> (\<forall>e \<in> set extractors. vals (ext_name e) = Some (apply_stim e self)))"
proof -
  let ?vals = "\<lambda>k. map_option (\<lambda>x. apply_stim x self) (last_named extractors k)"
  have 1: "TextStim_extract self extractors =
             Inr \<lparr>val_stim = self, val_extractor = last extractors, val_data = ?vals\<rparr>"
    by (rule TextStim_extract_eq [OF assms])
  have 2: "dom ?vals = ext_name ` set extractors"
    by (rule dom_last_named)
  have 3: "card (dom ?vals) = length extractors" if "distinct (map ext_name extractors)"
    using that 2 by (metis distinct_card length_map list.set_map)
  have 4: "\<forall>e \<in> set extractors. ?vals (ext_name e) = Some (apply_stim e self)"
    if "distinct (map ext_name extractors)"
    using that by (simp add: last_named_distinct)
  from 1 2 3 4 show ?thesis by blast
qed

theorem TextStim_extract_value_witness:
  "[const_extractor ''a'' 1, const_extractor ''b'' 2] \<noteq> [] \<and>
   distinct (map ext_name [const_extractor ''a'' 1, const_extractor ''b'' 2]) \<and>
   (\<exists>vals. TextStim_extract (TextStim (Str ''hi'')) [const_extractor ''a'' 1, const_extractor ''b'' 2]
              = Inr \<lparr>val_stim = TextStim (Str ''hi''), val_extractor = const_extractor ''b'' 2,
                     val_data = vals\<rparr>
      \<and> dom vals = {''a'', ''b''} \<and> card (dom vals) = 2
      \<and> vals ''a'' = Some 1 \<and> vals ''b'' = Some 2)"
proof -
  let ?xs = "[const_extractor ''a'' 1, const_extractor ''b'' 2]"
  have n: "?xs \<noteq> []" by simp
  have d: "distinct (map ext_name ?xs)" by (simp add: const_extractor_def)
  from TextStim_extract_value [OF n, of "TextStim (Str ''hi'')"] d obtain vals where
    1: "TextStim_extract (TextStim (Str ''hi'')) ?xs =
          Inr \<lparr>val_stim = TextStim (Str ''hi''), val_extractor = last ?xs, val_data = vals\<rparr>" and
    2: "dom vals = ext_name ` set ?xs" and
    3: "card (dom vals) = length ?xs" and
    4: "\<forall>e \<in> set ?xs. vals (ext_name e) = Some (apply_stim e (TextStim (Str ''hi'')))"
    by blast
  from 2 have dm: "dom vals = {''a'', ''b''}" by (simp add: const_extractor_def)
  from 4 have vs: "vals ''a'' = Some 1 \<and> vals ''b'' = Some 2" by (simp add: const_extractor_def)
  from n d 1 dm 3 vs show ?thesis by simp
qed

text \<open>
  The claim as it was stated fails where two extractors share a name: the second result
  overwrites the first, and the dict of two extractors has one entry.
\<close>

theorem TextStim_extract_same_name_counterexample:
  "TextStim_extract (TextStim (Str ''hi'')) [const_extractor ''a'' 1, const_extractor ''a'' 2]
     = Inr \<lparr>val_stim = TextStim (Str ''hi''), val_extractor = const_extractor ''a'' 2,
            val_data = [''a'' \<mapsto> 2]\<rparr>
   \<and> card (dom [''a'' \<mapsto> (2::nat)]) = 1
   \<and> length [const_extractor ''a'' 1, const_extractor ''a'' 2] = 2"
  by (simp add: TextStim_extract_def const_extractor_def)

text \<open>
  Claim C10, as amended. For a collection that is not empty and whose elements are all
  plain, \<^verbatim>\<open>extract\<close> with at least one element-level extractor (one whose target is
  not the collection's class) fails with \<^verbatim>\<open>AttributeError\<close>: the element-level branch
  reads the onset of the element, which a plain element does not have.
\<close>

theorem extract_plain_elements_attribute_error:
  assumes "elements cts \<noteq> []" and "\<forall>e \<in> set (elements cts). is_plain e"
    and "\<exists>ext \<in> set extractors. ext_target ext \<noteq> ''ComplexTextStim''"
  shows "ComplexTextStim_extract cts extractors merge_events = Inl AttributeError"
proof -
  from assms(1) obtain e where "e \<in> set (elements cts)"
    by (cases "elements cts") auto
  with assms(2) have "\<exists>e \<in> set (elements cts). is_plain e"
    by auto
  from extract_from_plain [OF this assms(3)] show ?thesis
    by (simp add: ComplexTextStim_extract_def)
qed

theorem extract_plain_elements_attribute_error_witness:
  "from_text (\<lambda>_ _. Inr []) None ''a b'' ''word'' None ''english''
     = Inr \<lparr>elements = [TextStim (Str ''a''), TextStim (Str ''b'')]\<rparr> \<and>
   ComplexTextStim_extract \<lparr>elements = [TextStim (Str ''a''), TextStim (Str ''b'')]\<rparr>
     [const_extractor ''n'' 1] True = Inl AttributeError"
proof -
  have f: "findall patt ''a b'' = [''a'', ''b'']"
    by code_simp
  then have 1: "from_text (\<lambda>_ _. Inr []) None ''a b'' ''word'' None ''english''
                  = Inr \<lparr>elements = [TextStim (Str ''a''), TextStim (Str ''b'')]\<rparr>"
    by (simp add: from_text_def tokens_of_def try_nltk_def append_tokens_eq del: findall.simps)
  have 2: "ComplexTextStim_extract \<lparr>elements = [TextStim (Str ''a''), TextStim (Str ''b'')]\<rparr>
             [const_extractor ''n'' 1] True = Inl AttributeError"
    using extract_plain_elements_attribute_error
      [of "\<lparr>elements = [TextStim (Str ''a''), TextStim (Str ''b'')]\<rparr>" "[const_extractor ''n'' 1]" True]
    by (simp add: const_extractor_def)
  from 1 2 show ?thesis by simp
qed

text \<open>
  The claim as it was stated fails for the empty collection, which \<^verbatim>\<open>fromText\<close>
  builds from a text without a token: the loop over the elements does nothing, and
  \<^verbatim>\<open>extract\<close> returns the empty timeline.
\<close>

theorem extract_empty_collection_counterexample:
  "from_text (\<lambda>_ _. Inr []) None [] ''word'' None ''english'' = Inr \<lparr>elements = []\<rparr>
   \<and> ComplexTextStim_extract \<lparr>elements = []\<rparr> [const_extractor ''n'' 1] True = Inr []"
proof -
  have "findall patt [] = []"
    by code_simp
  then show ?thesis
    by (simp add: from_text_def tokens_of_def try_nltk_def ComplexTextStim_extract_def
        const_extractor_def del: findall.simps)
qed

end
